theory Spec2Isabelle
  imports Main "HOL-Library.AList"
begin

section \<open>Values, exceptions and the configuration store\<close>

text \<open>
  The mixin of \<^verbatim>\<open>server_environment/models/server_env_mixin.py\<close> replaces fields
  of a model by fields computed from the server's configuration files. Python values
  that the code moves around are kept as a small datatype; every exception the code can
  raise is a value of \<open>exn\<close>, and a function that can raise returns \<open>exn + 'a\<close>.
\<close>

datatype pyval = PyNone | PyBool bool | PyInt int | PyStr string

datatype exn = ValueError | KeyError | AttributeError | TypeError | ConfigError

text \<open>Python's truth value of an object: the empty values are the falsy ones.\<close>

fun py_falsy :: "pyval \<Rightarrow> bool" where
  "py_falsy PyNone = True"
| "py_falsy (PyBool b) = (\<not> b)"
| "py_falsy (PyInt n) = (n = 0)"
| "py_falsy (PyStr s) = (s = [])"

text \<open>
  \<^verbatim>\<open>serv_config\<close> is imported from a module that is not part of the file; it is a
  parameter of the model. The code uses three things of it: \<^verbatim>\<open>section in serv_config\<close>,
  \<^verbatim>\<open>key in serv_config[section]\<close> and \<^verbatim>\<open>getattr(serv_config, getter)(section, key)\<close>.
  The last one is a single function here: it is \<open>Inl\<close> when the attribute lookup or the
  call raises, whatever the reason (no such getter, no such key, a value that cannot be
  coerced).
\<close>

record serv_config =
  has_section :: "string \<Rightarrow> bool"
  has_option :: "string \<Rightarrow> string \<Rightarrow> bool"
  call_getter :: "string \<Rightarrow> string \<Rightarrow> string \<Rightarrow> exn + pyval"

section \<open>Records and recordsets\<close>

text \<open>
  A recordset is a list of record ids. The values of the records live in a cache shared by
  all recordsets: \<open>cache e i\<close> maps each field name of record \<open>i\<close> to its current value
  (an unset field holds the empty value the framework gives it); a name that is not a
  field of the model is not in the map. The environment also collects what
  \<^verbatim>\<open>_logger.exception\<close> writes.
\<close>

type_synonym recordset = "nat list"

record env =
  cache :: "nat \<Rightarrow> string \<rightharpoonup> pyval"
  logged :: "string list"

text \<open>\<^verbatim>\<open>self.ensure_one()\<close>: raises unless the recordset holds exactly one record.\<close>

definition ensure_one :: "recordset \<Rightarrow> exn + nat" where
  "ensure_one self = (case self of [i] \<Rightarrow> Inr i | _ \<Rightarrow> Inl ValueError)"

text \<open>\<^verbatim>\<open>record[key]\<close> and \<^verbatim>\<open>record[key] = value\<close>; both raise on a name that is no field.
  The conversion the framework applies to an assigned value is not modelled: the cache
  holds the value as the code assigns it.\<close>

definition getitem :: "env \<Rightarrow> nat \<Rightarrow> string \<Rightarrow> exn + pyval" where
  "getitem e i key = (case cache e i key of None \<Rightarrow> Inl KeyError | Some v \<Rightarrow> Inr v)"

definition setitem :: "env \<Rightarrow> nat \<Rightarrow> string \<Rightarrow> pyval \<Rightarrow> exn + env" where
  "setitem e i key v =
     (case cache e i key of
        None \<Rightarrow> Inl KeyError
      | Some _ \<Rightarrow> Inr (e\<lparr>cache := (cache e)(i := (cache e i)(key \<mapsto> v))\<rparr>))"

section \<open>Strings\<close>

text \<open>\<^verbatim>\<open>s.replace(old, new)\<close> for one-character \<open>old\<close> and \<open>new\<close>, and \<^verbatim>\<open>sep.join(xs)\<close>.\<close>

definition str_replace :: "char \<Rightarrow> char \<Rightarrow> string \<Rightarrow> string" where
  "str_replace old new s = map (\<lambda>c. if c = old then new else c) s"

fun str_join :: "string \<Rightarrow> string list \<Rightarrow> string" where
  "str_join sep [] = []"
| "str_join sep [x] = x"
| "str_join sep (x # y # ys) = x @ sep @ str_join sep (y # ys)"

section \<open>The model class\<close>

text \<open>
  A field object has a name, a class, the dictionary \<^verbatim>\<open>args\<close> of the keyword arguments
  it was built with, and attributes. Objects and dictionaries are mutable and shared in
  Python, so they live in two stores and are referred to by address. \<open>m_fields\<close> is the
  ordered dictionary \<^verbatim>\<open>_fields\<close> from names to field objects, \<open>env_fields\<close> the dictionary
  that the property \<^verbatim>\<open>_server_env_fields\<close> returns, in iteration order.
\<close>

type_synonym addr = nat
type_synonym pydict = "string \<rightharpoonup> pyval"

record field =
  f_name :: string
  f_cls :: string
  f_args :: addr
  f_attrs :: pydict

record model =
  m_name :: string
  env_fields :: "(string \<times> string) list"
  m_fields :: "(string \<times> addr) list"
  objs :: "addr \<Rightarrow> field"
  dicts :: "addr \<Rightarrow> pydict"
  next_obj :: addr
  next_dict :: addr

section \<open>Reading from the configuration\<close>

definition server_env_section_name :: "model \<Rightarrow> env \<Rightarrow> recordset \<Rightarrow> exn + string" where
  "server_env_section_name m e self =
     (case ensure_one self of
        Inl x \<Rightarrow> Inl x
      | Inr i \<Rightarrow>
          (case cache e i ''name'' of
             None \<Rightarrow> Inl AttributeError
           | Some (PyStr n) \<Rightarrow>
               Inr (str_join ''.'' [str_replace (CHR ''.'') (CHR ''_'') (m_name m), n])
           | Some _ \<Rightarrow> Inl TypeError))"

definition server_env_read_from_config ::
  "serv_config \<Rightarrow> env \<Rightarrow> recordset \<Rightarrow> string \<Rightarrow> string \<Rightarrow> string \<Rightarrow> exn + pyval \<times> env" where
  "server_env_read_from_config cfg e self section_name field_name config_getter =
     (case ensure_one self of
        Inl x \<Rightarrow> Inl x
      | Inr _ \<Rightarrow>
          (case call_getter cfg config_getter section_name field_name of
             Inl _ \<Rightarrow>
               Inr (PyBool False,
                    e\<lparr>logged := logged e @
                       [''error trying to read field '' @ field_name @
                        '' in section '' @ section_name]\<rparr>)
           | Inr v \<Rightarrow> Inr (v, e)))"

definition server_env_default_fieldname :: "string \<Rightarrow> string" where
  "server_env_default_fieldname base_field_name = base_field_name @ ''_env_default''"

text \<open>
  The body of the inner loop of \<^verbatim>\<open>_compute_server_env\<close>, for the record \<open>r\<close> of the
  outer loop. The section name and the value of the configuration are asked of \<open>self\<close>,
  the whole recordset, as the source does; the default value is read from \<open>r\<close> and the
  result is assigned to \<open>r\<close>. An exception ends the computation and the model keeps only
  the exception.
\<close>

definition compute_field ::
  "serv_config \<Rightarrow> model \<Rightarrow> recordset \<Rightarrow> nat \<Rightarrow> env \<Rightarrow> string \<times> string \<Rightarrow> exn + env" where
  "compute_field cfg m self r e p =
     (case p of (field_name, getter_name) \<Rightarrow>
        (case server_env_section_name m e self of
           Inl x \<Rightarrow> Inl x
         | Inr section_name \<Rightarrow>
             (case (if has_section cfg section_name \<and> has_option cfg section_name field_name
                    then server_env_read_from_config cfg e self section_name field_name getter_name
                    else (case getitem e r (server_env_default_fieldname field_name) of
                            Inl x \<Rightarrow> Inl x
                          | Inr v \<Rightarrow> Inr (v, e)))
              of Inl x \<Rightarrow> Inl x
               | Inr (v, e') \<Rightarrow> setitem e' r field_name v)))"

fun compute_fields ::
  "serv_config \<Rightarrow> model \<Rightarrow> recordset \<Rightarrow> nat \<Rightarrow> env \<Rightarrow> (string \<times> string) list \<Rightarrow> exn + env" where
  "compute_fields cfg m self r e [] = Inr e"
| "compute_fields cfg m self r e (p # ps) =
     (case compute_field cfg m self r e p of
        Inl x \<Rightarrow> Inl x
      | Inr e' \<Rightarrow> compute_fields cfg m self r e' ps)"

fun compute_records ::
  "serv_config \<Rightarrow> model \<Rightarrow> recordset \<Rightarrow> env \<Rightarrow> nat list \<Rightarrow> exn + env" where
  "compute_records cfg m self e [] = Inr e"
| "compute_records cfg m self e (r # rs) =
     (case compute_fields cfg m self r e (env_fields m) of
        Inl x \<Rightarrow> Inl x
      | Inr e' \<Rightarrow> compute_records cfg m self e' rs)"

definition compute_server_env :: "serv_config \<Rightarrow> model \<Rightarrow> env \<Rightarrow> recordset \<Rightarrow> exn + env" where
  "compute_server_env cfg m e self = compute_records cfg m self e self"

section \<open>Schema setup\<close>

text \<open>
  \<^verbatim>\<open>_server_env_transform_field_to_read_from_env\<close> assigns four attributes of the field
  object it is given.
\<close>

definition server_env_transform_field_to_read_from_env :: "model \<Rightarrow> addr \<Rightarrow> model" where
  "server_env_transform_field_to_read_from_env m field =
     m\<lparr>objs := (objs m)(field := (objs m field)\<lparr>f_attrs :=
          (f_attrs (objs m field))
            (''compute'' \<mapsto> PyStr ''_compute_server_env'',
             ''store'' \<mapsto> PyBool False,
             ''copy'' \<mapsto> PyBool False,
             ''sparse'' \<mapsto> PyNone)\<rparr>)\<rparr>"

text \<open>
  Two operations of the framework. \<^verbatim>\<open>cls(**kwargs)\<close> builds a new field object of class
  \<open>c\<close>; the call passes the keyword arguments in a dictionary of its own, which the new
  object keeps as its \<^verbatim>\<open>args\<close>. The attributes that the framework derives from them
  later are not modelled. \<^verbatim>\<open>_add_field(name, field)\<close> puts the object into \<^verbatim>\<open>_fields\<close>
  under the name and binds the name to the object.
\<close>

definition new_field :: "model \<Rightarrow> string \<Rightarrow> pydict \<Rightarrow> model \<times> addr" where
  "new_field m c kwargs =
     (m\<lparr>objs := (objs m)(next_obj m :=
            \<lparr>f_name = [], f_cls = c, f_args = next_dict m, f_attrs = Map.empty\<rparr>),
        dicts := (dicts m)(next_dict m := kwargs),
        next_obj := Suc (next_obj m),
        next_dict := Suc (next_dict m)\<rparr>,
      next_obj m)"

definition add_field :: "model \<Rightarrow> string \<Rightarrow> addr \<Rightarrow> model" where
  "add_field m fieldname field =
     m\<lparr>m_fields := AList.update fieldname field (m_fields m),
       objs := (objs m)(field := (objs m field)\<lparr>f_name := fieldname\<rparr>)\<rparr>"

text \<open>
  \<^verbatim>\<open>_server_env_add_default_field\<close>. \<open>field_args\<close> is the address of the dictionary
  \<^verbatim>\<open>base_field.args\<close> itself: \<^verbatim>\<open>pop\<close> and \<^verbatim>\<open>update\<close> change the dictionary stored there.
\<close>

definition server_env_add_default_field :: "model \<Rightarrow> addr \<Rightarrow> model" where
  "server_env_add_default_field m base_field =
     (let fieldname = server_env_default_fieldname (f_name (objs m base_field)) in
      if map_of (m_fields m) fieldname = None then
        (let base_field_cls = f_cls (objs m base_field);
             field_args = f_args (objs m base_field);
             m1 = m\<lparr>dicts := (dicts m)(field_args :=
                     (dicts m field_args)(''_sequence'' := None))\<rparr>;
             m2 = m1\<lparr>dicts := (dicts m1)(field_args :=
                     (dicts m1 field_args)
                       (''sparse'' \<mapsto> PyStr ''server_env_defaults'',
                        ''automatic'' \<mapsto> PyBool True))\<rparr>
         in (case new_field m2 base_field_cls (dicts m2 field_args) of
               (m3, field) \<Rightarrow> add_field m3 fieldname field))
      else m)"



section \<open>Properties of a model class\<close>




section \<open>A storage backend\<close>

text \<open>
  The example of the class's documentation: the model \<^verbatim>\<open>storage.backend\<close> reads its
  field \<^verbatim>\<open>directory_path\<close> with the getter \<^verbatim>\<open>get\<close>. The configuration has one
  section, for the backend named Primary, with the one key \<^verbatim>\<open>directory_path\<close>; every
  other lookup raises. Record 1 is Primary; records 2 and 3 have no section, and record 3
  has no default value either (an unset text field reads as \<^verbatim>\<open>False\<close>).
\<close>

definition ex_config :: serv_config where
  "ex_config =
     \<lparr>has_section = (\<lambda>s. s = ''storage_backend.Primary''),
      has_option = (\<lambda>s k. s = ''storage_backend.Primary'' \<and> k = ''directory_path''),
      call_getter = (\<lambda>g s k.
         if g = ''get'' \<and> s = ''storage_backend.Primary'' \<and> k = ''directory_path''
         then Inr (PyStr ''/srv/data'') else Inl ConfigError)\<rparr>"

definition ex_model :: model where
  "ex_model =
     \<lparr>m_name = ''storage.backend'',
      env_fields = [(''directory_path'', ''get'')],
      m_fields = [(''name'', 0), (''directory_path'', 1)],
      objs = (\<lambda>r. \<lparr>f_name = (if r = 0 then ''name'' else ''directory_path''),
                    f_cls = ''Char'', f_args = r, f_attrs = Map.empty\<rparr>),
      dicts = (\<lambda>a. [''_sequence'' \<mapsto> PyInt (int a), ''required'' \<mapsto> PyBool (a = 0)]),
      next_obj = 2, next_dict = 2\<rparr>"

definition ex_env :: env where
  "ex_env =
     \<lparr>cache = (\<lambda>i.
         [''name'' \<mapsto> PyStr (if i = 1 then ''Primary'' else ''Secondary''),
          ''directory_path'' \<mapsto> PyBool False,
          ''directory_path_env_default'' \<mapsto> (if i = 3 then PyBool False else PyStr ''/tmp'')]),
      logged = []\<rparr>"


text \<open>Reading a field of a record once the computation has returned.\<close>

definition read_computed :: "exn + env \<Rightarrow> nat \<Rightarrow> string \<Rightarrow> exn + pyval" where
  "read_computed res i key = (case res of Inl x \<Rightarrow> Inl x | Inr e \<Rightarrow> getitem e i key)"

section \<open>The computation on one record\<close>

lemma section_name_single:
  "cache e i ''name'' = Some (PyStr n) \<Longrightarrow>
   server_env_section_name m e [i] =
     Inr (str_replace (CHR ''.'') (CHR ''_'') (m_name m) @ ''.'' @ n)"
  by (simp add: server_env_section_name_def ensure_one_def)

lemma section_name_singleD:
  "server_env_section_name m e [i] = Inr s \<Longrightarrow>
   \<exists>n. cache e i ''name'' = Some (PyStr n) \<and>
       s = str_replace (CHR ''.'') (CHR ''_'') (m_name m) @ ''.'' @ n"
  by (auto simp: server_env_section_name_def ensure_one_def split: option.splits pyval.splits)

lemma default_fieldname_not_name: "server_env_default_fieldname f \<noteq> ''name''"
proof
  assume "server_env_default_fieldname f = ''name''"
  then have "length (server_env_default_fieldname f) = length ''name''" by simp
  then show False by (simp add: server_env_default_fieldname_def)
qed

lemma compute_field_single:
  assumes "cache e i ''name'' = Some (PyStr n)"
    and "cache e i f \<noteq> None"
    and "cache e i (server_env_default_fieldname f) = Some d"
    and "s = str_replace (CHR ''.'') (CHR ''_'') (m_name m) @ ''.'' @ n"
  shows "\<exists>e'. compute_field cfg m [i] i e (f, g) = Inr e' \<and>
           cache e' = (cache e)(i := (cache e i)(f \<mapsto>
              (if has_section cfg s \<and> has_option cfg s f
               then (case call_getter cfg g s f of Inl _ \<Rightarrow> PyBool False | Inr v \<Rightarrow> v)
               else d)))"
  using assms
  by (auto simp: compute_field_def section_name_single server_env_read_from_config_def
      ensure_one_def getitem_def setitem_def split: sum.splits)

lemma compute_fields_single:
  assumes "cache e i ''name'' = Some (PyStr n)"
    and "''name'' \<notin> fst ` set ps"
    and "\<forall>f \<in> fst ` set ps. cache e i f \<noteq> None \<and> cache e i (server_env_default_fieldname f) \<noteq> None"
    and "distinct (map fst ps)"
    and "s = str_replace (CHR ''.'') (CHR ''_'') (m_name m) @ ''.'' @ n"
  shows "\<exists>e'. compute_fields cfg m [i] i e ps = Inr e' \<and>
           (\<forall>j k. j \<noteq> i \<or> k \<notin> fst ` set ps \<longrightarrow> cache e' j k = cache e j k) \<and>
           (\<forall>k. cache e' i k = None \<longleftrightarrow> cache e i k = None) \<and>
           (\<forall>(f, g) \<in> set ps. has_section cfg s \<and> has_option cfg s f \<longrightarrow>
              cache e' i f = Some (case call_getter cfg g s f of Inl _ \<Rightarrow> PyBool False | Inr v \<Rightarrow> v)) \<and>
           (\<forall>(f, g) \<in> set ps. \<not> (has_section cfg s \<and> has_option cfg s f) \<and>
              server_env_default_fieldname f \<notin> fst ` set ps \<longrightarrow>
              cache e' i f = cache e i (server_env_default_fieldname f))"
  using assms
proof (induction ps arbitrary: e)
  case Nil
  then show ?case by simp
next
  case (Cons p ps)
  obtain f g where p: "p = (f, g)" by (cases p)
  from Cons.prems p obtain d where d: "cache e i (server_env_default_fieldname f) = Some d"
    by auto
  from Cons.prems p have fe: "cache e i f \<noteq> None" by auto
  let ?v = "if has_section cfg s \<and> has_option cfg s f
               then (case call_getter cfg g s f of Inl _ \<Rightarrow> PyBool False | Inr v \<Rightarrow> v)
               else d"
  from compute_field_single[OF Cons.prems(1) fe d Cons.prems(5), of cfg g]
  obtain e1 where e1: "compute_field cfg m [i] i e (f, g) = Inr e1"
    and c1: "cache e1 = (cache e)(i := (cache e i)(f \<mapsto> ?v))"
    by blast
  have fn: "f \<noteq> ''name''" using Cons.prems(2) p by auto
  have n1: "cache e1 i ''name'' = Some (PyStr n)"
    using Cons.prems(1) fn by (simp add: c1)
  have ex1: "\<forall>f \<in> fst ` set ps. cache e1 i f \<noteq> None \<and> cache e1 i (server_env_default_fieldname f) \<noteq> None"
    using Cons.prems(3) by (auto simp: c1)
  from Cons.IH[OF n1 _ ex1 _ Cons.prems(5)] Cons.prems(2,4)
  obtain e' where e': "compute_fields cfg m [i] i e1 ps = Inr e'"
    and a: "\<forall>j k. j \<noteq> i \<or> k \<notin> fst ` set ps \<longrightarrow> cache e' j k = cache e1 j k"
    and b: "\<forall>k. cache e' i k = None \<longleftrightarrow> cache e1 i k = None"
    and c: "\<forall>(f, g) \<in> set ps. has_section cfg s \<and> has_option cfg s f \<longrightarrow>
              cache e' i f = Some (case call_getter cfg g s f of Inl _ \<Rightarrow> PyBool False | Inr v \<Rightarrow> v)"
    and dd: "\<forall>(f, g) \<in> set ps. \<not> (has_section cfg s \<and> has_option cfg s f) \<and>
              server_env_default_fieldname f \<notin> fst ` set ps \<longrightarrow>
              cache e' i f = cache e1 i (server_env_default_fieldname f)"
    by auto
  have fps: "f \<notin> fst ` set ps" using Cons.prems(4) p by auto
  have run: "compute_fields cfg m [i] i e (p # ps) = Inr e'"
    by (simp add: p e1 e')
  have A: "\<forall>j k. j \<noteq> i \<or> k \<notin> fst ` set (p # ps) \<longrightarrow> cache e' j k = cache e j k"
    using a by (auto simp: c1 p)
  have B: "\<forall>k. cache e' i k = None \<longleftrightarrow> cache e i k = None"
    using b fe by (auto simp: c1)
  have hd: "cache e' i f = Some ?v"
    using a fps by (simp add: c1)
  have C: "\<forall>(f, g) \<in> set (p # ps). has_section cfg s \<and> has_option cfg s f \<longrightarrow>
              cache e' i f = Some (case call_getter cfg g s f of Inl _ \<Rightarrow> PyBool False | Inr v \<Rightarrow> v)"
    using c hd by (auto simp: p)
  have D: "\<forall>(f, g) \<in> set (p # ps). \<not> (has_section cfg s \<and> has_option cfg s f) \<and>
              server_env_default_fieldname f \<notin> fst ` set (p # ps) \<longrightarrow>
              cache e' i f = cache e i (server_env_default_fieldname f)"
  proof (clarify)
    fix f' g'
    assume in': "(f', g') \<in> set (p # ps)"
      and np: "\<not> (has_section cfg s \<and> has_option cfg s f')"
      and ns: "server_env_default_fieldname f' \<notin> fst ` set (p # ps)"
    show "cache e' i f' = cache e i (server_env_default_fieldname f')"
    proof (cases "(f', g') = p")
      case True
      then have "f' = f" "g' = g" using p by auto
      then show ?thesis using hd np d by auto
    next
      case False
      then have "(f', g') \<in> set ps" using in' by auto
      moreover have "server_env_default_fieldname f' \<notin> fst ` set ps" using ns by auto
      ultimately have "cache e' i f' = cache e1 i (server_env_default_fieldname f')"
        using dd np by blast
      moreover have "server_env_default_fieldname f' \<noteq> f" using ns p by auto
      ultimately show ?thesis by (simp add: c1)
    qed
  qed
  show ?case using run A B C D by blast
qed

lemma compute_server_env_not_single:
  assumes "self = r # r' # rs" and "env_fields m = p # ps"
  shows "compute_server_env cfg m e self = Inl ValueError"
  using assms
  by (cases p)
     (simp add: compute_server_env_def compute_field_def server_env_section_name_def
       ensure_one_def)

section \<open>The setup loop\<close>

lemma transform_simps [simp]:
  "m_fields (server_env_transform_field_to_read_from_env m r) = m_fields m"
  "dicts (server_env_transform_field_to_read_from_env m r) = dicts m"
  "next_obj (server_env_transform_field_to_read_from_env m r) = next_obj m"
  "next_dict (server_env_transform_field_to_read_from_env m r) = next_dict m"
  "env_fields (server_env_transform_field_to_read_from_env m r) = env_fields m"
  "f_name (objs (server_env_transform_field_to_read_from_env m r) x) = f_name (objs m x)"
  "f_cls (objs (server_env_transform_field_to_read_from_env m r) x) = f_cls (objs m x)"
  "f_args (objs (server_env_transform_field_to_read_from_env m r) x) = f_args (objs m x)"
  by (simp_all add: server_env_transform_field_to_read_from_env_def)






lemma add_default_skip:
  "map_of (m_fields m) (server_env_default_fieldname (f_name (objs m b))) \<noteq> None \<Longrightarrow>
   server_env_add_default_field m b = m"
  by (auto simp: server_env_add_default_field_def Let_def)

lemma update_fresh: "map_of xs k = None \<Longrightarrow> AList.update k v xs = xs @ [(k, v)]"
  by (induction xs) (auto split: if_splits)

lemma add_default_new:
  assumes "map_of (m_fields m) (server_env_default_fieldname (f_name (objs m b))) = None"
  shows "server_env_add_default_field m b =
     m\<lparr>m_fields := m_fields m @ [(server_env_default_fieldname (f_name (objs m b)), next_obj m)],
       objs := (objs m)(next_obj m :=
            \<lparr>f_name = server_env_default_fieldname (f_name (objs m b)), f_cls = f_cls (objs m b),
             f_args = next_dict m, f_attrs = Map.empty\<rparr>),
       dicts := (dicts m)
          (f_args (objs m b) := (dicts m (f_args (objs m b)))
             (''_sequence'' := None, ''sparse'' \<mapsto> PyStr ''server_env_defaults'',
              ''automatic'' \<mapsto> PyBool True),
           next_dict m := (dicts m (f_args (objs m b)))
             (''_sequence'' := None, ''sparse'' \<mapsto> PyStr ''server_env_defaults'',
              ''automatic'' \<mapsto> PyBool True)),
       next_obj := Suc (next_obj m),
       next_dict := Suc (next_dict m)\<rparr>"
proof -
  have "AList.update (server_env_default_fieldname (f_name (objs m b))) (next_obj m) (m_fields m)
        = m_fields m @ [(server_env_default_fieldname (f_name (objs m b)), next_obj m)]"
    using assms by (simp add: update_fresh)
  then show ?thesis using assms 
    by (simp add: server_env_add_default_field_def Let_def new_field_def add_field_def)
qed


lemma add_default_env_fields [simp]: "env_fields (server_env_add_default_field m b) = env_fields m"
  by (cases "map_of (m_fields m) (server_env_default_fieldname (f_name (objs m b))) = None")
     (simp_all add: add_default_new add_default_skip)














section \<open>Resolution of a field\<close>

text \<open>
  C1. The configuration comes first. Take a recordset of one record \<open>i\<close> whose section
  name is \<open>s\<close>, and a pair \<open>(f, g)\<close> of \<^verbatim>\<open>_server_env_fields\<close> such that the configuration
  has the section \<open>s\<close> and the key \<open>f\<close> in it. Then \<^verbatim>\<open>_compute_server_env\<close> returns and
  the value it has assigned to \<open>f\<close> is the one the getter \<open>g\<close> returns for \<open>(s, f)\<close> (and
  \<^verbatim>\<open>False\<close> when the getter raises), whatever value \<open>d\<close> the default field of \<open>f\<close> holds.
  The record has a name that is a string, \<^verbatim>\<open>name\<close> is not itself an overridden field,
  and the overridden fields and their default fields are fields of the record.
\<close>

theorem compute_server_env_config_first:
  assumes sec: "server_env_section_name m e [i] = Inr s"
    and decl: "(f, g) \<in> set (env_fields m)"
    and present: "has_section cfg s" "has_option cfg s f"
    and dist: "distinct (map fst (env_fields m))"
    and nname: "''name'' \<notin> fst ` set (env_fields m)"
    and ex: "\<forall>k \<in> fst ` set (env_fields m).
               cache e i k \<noteq> None \<and> cache e i (server_env_default_fieldname k) \<noteq> None"
  shows "\<exists>e'. compute_server_env cfg m
                 (e\<lparr>cache := (cache e)(i := (cache e i)(server_env_default_fieldname f \<mapsto> d))\<rparr>) [i]
               = Inr e' \<and>
              cache e' i f = Some (case call_getter cfg g s f of Inl _ \<Rightarrow> PyBool False | Inr v \<Rightarrow> v)"
proof -
  let ?e = "e\<lparr>cache := (cache e)(i := (cache e i)(server_env_default_fieldname f \<mapsto> d))\<rparr>"
  from section_name_singleD[OF sec] obtain n where
    n: "cache e i ''name'' = Some (PyStr n)"
    and s: "s = str_replace (CHR ''.'') (CHR ''_'') (m_name m) @ ''.'' @ n" by blast
  have n': "cache ?e i ''name'' = Some (PyStr n)"
    using n default_fieldname_not_name[of f] by simp
  have ex': "\<forall>k \<in> fst ` set (env_fields m).
               cache ?e i k \<noteq> None \<and> cache ?e i (server_env_default_fieldname k) \<noteq> None"
    using ex by simp
  from compute_fields_single[OF n' nname ex' dist s, of cfg]
  obtain e' where run: "compute_fields cfg m [i] i ?e (env_fields m) = Inr e'"
    and val: "\<forall>(f, g) \<in> set (env_fields m). has_section cfg s \<and> has_option cfg s f \<longrightarrow>
              cache e' i f = Some (case call_getter cfg g s f of Inl _ \<Rightarrow> PyBool False | Inr v \<Rightarrow> v)"
    by blast
  have "compute_server_env cfg m ?e [i] = Inr e'"
    by (simp add: compute_server_env_def run)
  moreover have "cache e' i f = Some (case call_getter cfg g s f of Inl _ \<Rightarrow> PyBool False | Inr v \<Rightarrow> v)"
    using val decl present by blast
  ultimately show ?thesis by blast
qed

theorem compute_server_env_config_first_witness:
  "\<exists>e'. compute_server_env ex_config ex_model
           (ex_env\<lparr>cache := (cache ex_env)(1 := (cache ex_env 1)
              (server_env_default_fieldname ''directory_path'' \<mapsto> PyStr ''/elsewhere''))\<rparr>) [1]
         = Inr e' \<and>
        cache e' 1 ''directory_path'' = Some (PyStr ''/srv/data'')"
  using compute_server_env_config_first[of ex_model ex_env 1 "''storage_backend.Primary''"
      "''directory_path''" "''get''" ex_config "PyStr ''/elsewhere''"]
  by (simp add: ex_config_def ex_model_def ex_env_def server_env_section_name_def
      ensure_one_def str_replace_def server_env_default_fieldname_def)



text \<open>
  C3. A recordset of two records. The loop goes over the records, but the section name
  is asked of \<open>self\<close>, whose \<^verbatim>\<open>ensure_one\<close> raises \<^verbatim>\<open>ValueError\<close> on the two records:
  no record receives a value. (\<open>compute_server_env_not_single\<close> above: the same for every
  recordset of two or more records and every model with an overridden field.)
\<close>

theorem compute_server_env_batch_raises:
  "compute_server_env ex_config ex_model ex_env [1, 2] = Inl ValueError"
  by (simp add: compute_server_env_def compute_field_def server_env_section_name_def
      ensure_one_def ex_model_def)

text \<open>
  C4. An exception of the getter does not leave \<^verbatim>\<open>_server_env_read_from_config\<close>: on a
  recordset of one record the helper returns \<^verbatim>\<open>False\<close> and logs one message that names the
  field and the section.
\<close>

theorem read_from_config_swallows:
  assumes "call_getter cfg config_getter section_name field_name = Inl x"
  shows "server_env_read_from_config cfg e [i] section_name field_name config_getter =
           Inr (PyBool False,
                e\<lparr>logged := logged e @
                   [''error trying to read field '' @ field_name @
                    '' in section '' @ section_name]\<rparr>)"
  using assms by (simp add: server_env_read_from_config_def ensure_one_def)

theorem read_from_config_swallows_witness:
  "server_env_read_from_config ex_config ex_env [1] ''storage_backend.Primary''
       ''directory_path'' ''getint'' =
     Inr (PyBool False,
          ex_env\<lparr>logged :=
             [''error trying to read field directory_path in section storage_backend.Primary'']\<rparr>)"
  using read_from_config_swallows[of ex_config "''getint''" "''storage_backend.Primary''"
      "''directory_path''" ConfigError ex_env 1]
  by (simp add: ex_config_def ex_env_def)

text \<open>
  C5, as stated, fails. Record 3 has no section in the configuration and its default
  field is unset; the field is read with \<^verbatim>\<open>get\<close>, and the value assigned is \<^verbatim>\<open>False\<close>, the
  value of the default field, not the empty string.
\<close>

theorem compute_server_env_unset_default_cex:
  "read_computed (compute_server_env ex_config ex_model ex_env [3]) 3 ''directory_path''
     = Inr (PyBool False) \<and>
   read_computed (compute_server_env ex_config ex_model ex_env [3]) 3 ''directory_path''
     \<noteq> Inr (PyStr [])"
  by (simp add: read_computed_def compute_server_env_def compute_field_def
      server_env_section_name_def ensure_one_def ex_model_def ex_env_def ex_config_def
      str_replace_def getitem_def setitem_def server_env_default_fieldname_def)

text \<open>
  C5, amended. Without an entry in the configuration, and with a default field that holds
  an empty (falsy) value \<open>u\<close>, the value assigned is \<open>u\<close> itself, whatever the getter \<open>g\<close>:
  the getter plays no part in the fallback.
\<close>

theorem compute_server_env_unset_default:
  assumes sec: "server_env_section_name m e [i] = Inr s"
    and decl: "(f, g) \<in> set (env_fields m)"
    and absent: "\<not> (has_section cfg s \<and> has_option cfg s f)"
    and dist: "distinct (map fst (env_fields m))"
    and nname: "''name'' \<notin> fst ` set (env_fields m)"
    and ex: "\<forall>k \<in> fst ` set (env_fields m).
               cache e i k \<noteq> None \<and> cache e i (server_env_default_fieldname k) \<noteq> None"
    and own: "server_env_default_fieldname f \<notin> fst ` set (env_fields m)"
    and unset: "cache e i (server_env_default_fieldname f) = Some u" "py_falsy u"
  shows "\<exists>e' v. compute_server_env cfg m e [i] = Inr e' \<and>
              cache e' i f = Some v \<and> v = u \<and> py_falsy v"
proof -
  from section_name_singleD[OF sec] obtain n where
    n: "cache e i ''name'' = Some (PyStr n)"
    and s: "s = str_replace (CHR ''.'') (CHR ''_'') (m_name m) @ ''.'' @ n" by blast
  from compute_fields_single[OF n nname ex dist s, of cfg]
  obtain e' where run: "compute_fields cfg m [i] i e (env_fields m) = Inr e'"
    and val: "\<forall>(f, g) \<in> set (env_fields m). \<not> (has_section cfg s \<and> has_option cfg s f) \<and>
              server_env_default_fieldname f \<notin> fst ` set (env_fields m) \<longrightarrow>
              cache e' i f = cache e i (server_env_default_fieldname f)"
    by blast
  have "compute_server_env cfg m e [i] = Inr e'"
    by (simp add: compute_server_env_def run)
  moreover have "cache e' i f = Some u"
    using val decl absent own unset(1) by force
  ultimately show ?thesis using unset(2) by blast
qed

theorem compute_server_env_unset_default_witness:
  "\<exists>e' v. compute_server_env ex_config ex_model ex_env [3] = Inr e' \<and>
        cache e' 3 ''directory_path'' = Some v \<and> v = PyBool False \<and> py_falsy v"
  using compute_server_env_unset_default[of ex_model ex_env 3 "''storage_backend.Secondary''"
      "''directory_path''" "''get''" ex_config "PyBool False"]
  by (simp add: ex_config_def ex_model_def ex_env_def server_env_section_name_def
      ensure_one_def str_replace_def server_env_default_fieldname_def)

text \<open>
  C8. The section name of a single record is the name of the model with every dot replaced
  by an underscore, then a dot, then the name of the record. For the record named Primary
  of \<^verbatim>\<open>storage.backend\<close> it is \<^verbatim>\<open>storage_backend.Primary\<close>.
\<close>

theorem section_name_default:
  assumes "cache e i ''name'' = Some (PyStr n)"
  shows "server_env_section_name m e [i] =
           Inr (map (\<lambda>c. if c = CHR ''.'' then CHR ''_'' else c) (m_name m) @ ''.'' @ n)"
  using assms by (simp add: server_env_section_name_def ensure_one_def str_replace_def)

theorem section_name_default_witness:
  "server_env_section_name ex_model ex_env [1] = Inr ''storage_backend.Primary''"
  using section_name_default[of ex_env 1 "''Primary''" ex_model]
  by (simp add: ex_model_def ex_env_def)

section \<open>Setup of the fields\<close>








text \<open>
  C10. When the default field does not exist yet, \<^verbatim>\<open>_server_env_add_default_field\<close>
  changes the dictionary \<^verbatim>\<open>args\<close> of the base field itself: the base field still refers to
  the same dictionary, which has lost \<^verbatim>\<open>_sequence\<close> and gained \<^verbatim>\<open>sparse\<close> and
  \<^verbatim>\<open>automatic\<close>. The new field has the class of the base field and a dictionary of its own
  with the same contents.
\<close>

theorem add_default_field_mutates_base_args:
  assumes "map_of (m_fields m) (server_env_default_fieldname (f_name (objs m b))) = None"
    and "b < next_obj m" and "f_args (objs m b) < next_dict m"
  shows "f_args (objs (server_env_add_default_field m b) b) = f_args (objs m b) \<and>
         dicts (server_env_add_default_field m b) (f_args (objs m b)) =
           (dicts m (f_args (objs m b)))
             (''_sequence'' := None, ''sparse'' \<mapsto> PyStr ''server_env_defaults'',
              ''automatic'' \<mapsto> PyBool True) \<and>
         (\<exists>s. map_of (m_fields (server_env_add_default_field m b))
                 (server_env_default_fieldname (f_name (objs m b))) = Some s \<and>
              f_cls (objs (server_env_add_default_field m b) s) = f_cls (objs m b) \<and>
              f_args (objs (server_env_add_default_field m b) s) \<noteq> f_args (objs m b) \<and>
              dicts (server_env_add_default_field m b)
                (f_args (objs (server_env_add_default_field m b) s)) =
              dicts (server_env_add_default_field m b) (f_args (objs m b)))"
proof -
  note new = add_default_new[OF assms(1)]
  let ?m' = "server_env_add_default_field m b"
  have base: "f_args (objs ?m' b) = f_args (objs m b)"
    using assms(2) by (simp add: new)
  have upd: "dicts ?m' (f_args (objs m b)) =
           (dicts m (f_args (objs m b)))
             (''_sequence'' := None, ''sparse'' \<mapsto> PyStr ''server_env_defaults'',
              ''automatic'' \<mapsto> PyBool True)"
    using assms(3) by (simp add: new)
  have reg: "map_of (m_fields ?m') (server_env_default_fieldname (f_name (objs m b)))
               = Some (next_obj m)"
    using assms(1) by (simp add: new map_add_def)
  have cls: "f_cls (objs ?m' (next_obj m)) = f_cls (objs m b)"
    by (simp add: new)
  have own: "f_args (objs ?m' (next_obj m)) = next_dict m"
    by (simp add: new)
  have other: "f_args (objs ?m' (next_obj m)) \<noteq> f_args (objs m b)"
    using assms(3) by (simp add: own)
  have same: "dicts ?m' (f_args (objs ?m' (next_obj m))) = dicts ?m' (f_args (objs m b))"
    unfolding own upd by (simp add: new)
  from base upd reg cls other same show ?thesis by blast
qed

theorem add_default_field_mutates_base_args_witness:
  "dicts ex_model 1 ''_sequence'' = Some (PyInt 1) \<and>
   dicts ex_model 1 ''sparse'' = None \<and>
   dicts ex_model 1 ''automatic'' = None \<and>
   f_args (objs (server_env_add_default_field ex_model 1) 1) = 1 \<and>
   dicts (server_env_add_default_field ex_model 1) 1 ''_sequence'' = None \<and>
   dicts (server_env_add_default_field ex_model 1) 1 ''sparse'' = Some (PyStr ''server_env_defaults'') \<and>
   dicts (server_env_add_default_field ex_model 1) 1 ''automatic'' = Some (PyBool True)"
proof -
  have a: "map_of (m_fields ex_model) (server_env_default_fieldname (f_name (objs ex_model 1))) = None"
    by (simp add: ex_model_def server_env_default_fieldname_def)
  have b: "1 < next_obj ex_model" "f_args (objs ex_model 1) < next_dict ex_model"
    by (simp_all add: ex_model_def)
  have c: "f_args (objs ex_model 1) = 1" by (simp add: ex_model_def)
  from add_default_field_mutates_base_args[OF a b] show ?thesis
    by (simp add: c) (simp add: ex_model_def)
qed

end
